theory Spec2Isabelle
  imports Complex_Main
begin

section \<open>The Ollama embedder of MemMachine\<close>

text \<open>
  A shallow embedding of \<^verbatim>\<open>src/memmachine/common/embedder/ollama_embedder.py\<close>.
  The class \<^verbatim>\<open>OllamaEmbedder\<close> is a record, its methods are functions that take the
  trace of everything the client has done so far and return the trace extended. Raised
  exceptions are the left summand of the result. The HTTP service and the monotonic clock
  are the environment: two functions the methods consult. The methods \<^verbatim>\<open>__init__\<close> and
  \<^verbatim>\<open>_embed\<close> are \<open>init\<close> and \<open>embed\<close> here. The base class \<^verbatim>\<open>Embedder\<close> and
  the class \<^verbatim>\<open>MetricsFactory\<close> are not among the sources: the base constructor is
  called without arguments and leaves no mark, and the factory's two methods are recorded
  as events.
\<close>

subsection \<open>Python values and exceptions\<close>

text \<open>
  An exception is its class and its \<^verbatim>\<open>str(e)\<close>. Every class below derives from
  \<^verbatim>\<open>Exception\<close> except \<^verbatim>\<open>asyncio.CancelledError\<close>, which derives from
  \<^verbatim>\<open>BaseException\<close> only and so passes through \<^verbatim>\<open>except Exception\<close>.
\<close>

datatype exn_class =
    AttributeError
  | TypeError
  | KeyError
  | ValueError
  | ClientError
  | TimeoutError
  | RuntimeError
  | CancelledError

datatype exn = Exn (exn_class: exn_class) (exn_str: string)

fun is_Exception :: "exn_class \<Rightarrow> bool" where
  "is_Exception CancelledError = False"
| "is_Exception c = True"

text \<open>
  The items of \<^verbatim>\<open>inputs: list[Any]\<close>. Strings are lists of characters; the only
  character the code looks at is the line feed. An instance of any other class is given by
  what the code can see of it: the name of its type, its truth value, and what its
  \<^verbatim>\<open>replace\<close> does when called with two strings: there is no such attribute
  (\<^verbatim>\<open>dict\<close>, \<^verbatim>\<open>float\<close>), it raises (\<^verbatim>\<open>datetime.date\<close>, \<^verbatim>\<open>pathlib.Path\<close>), or
  it returns a string. An object whose \<^verbatim>\<open>replace\<close> returns something that is not a
  \<^verbatim>\<open>str\<close> has no value here: the cleaned inputs are strings.
\<close>

datatype replace_method = NoReplace | ReplaceRaises exn | ReplaceReturns string

datatype pyval =
    PyNone
  | PyBool bool
  | PyInt int
  | PyStr string
  | PyBytes string
  | PyList "pyval list"
  | PyObject string bool replace_method

text \<open>Truth value testing, as \<^verbatim>\<open>if input\<close> does it.\<close>

fun truthy :: "pyval \<Rightarrow> bool" where
  "truthy PyNone = False"
| "truthy (PyBool b) = b"
| "truthy (PyInt i) = (i \<noteq> 0)"
| "truthy (PyStr s) = (s \<noteq> [])"
| "truthy (PyBytes b) = (b \<noteq> [])"
| "truthy (PyList xs) = (xs \<noteq> [])"
| "truthy (PyObject ty t r) = t"

fun type_name :: "pyval \<Rightarrow> string" where
  "type_name PyNone = ''NoneType''"
| "type_name (PyBool b) = ''bool''"
| "type_name (PyInt i) = ''int''"
| "type_name (PyStr s) = ''str''"
| "type_name (PyBytes b) = ''bytes''"
| "type_name (PyList xs) = ''list''"
| "type_name (PyObject ty t r) = ty"

definition quoted :: "string \<Rightarrow> string" where
  "quoted s = CHR 0x27 # s @ [CHR 0x27]"

subsection \<open>Strings\<close>

text \<open>
  \<^verbatim>\<open>str.replace(old, new)\<close>: every non-overlapping occurrence of \<open>old\<close>, from the
  left, becomes \<open>new\<close>; for the empty \<open>old\<close>, \<open>new\<close> goes before every character and
  at the end.
\<close>

function str_replace :: "string \<Rightarrow> string \<Rightarrow> string \<Rightarrow> string" where
  "str_replace old new [] = (if old = [] then new else [])"
| "str_replace old new (c # cs) =
     (if old = [] then new @ c # str_replace old new cs
      else if take (length old) (c # cs) = old
        then new @ str_replace old new (drop (length old) (c # cs))
      else c # str_replace old new cs)"
  by pat_completeness auto
termination
  by (relation "measure (\<lambda>(old, new, s). length s)") auto

text \<open>\<^verbatim>\<open>str(n)\<close> of an integer, as the f-string formats \<^verbatim>\<open>response.status\<close>.\<close>

definition digit_char :: "nat \<Rightarrow> char" where
  "digit_char d = ''0123456789'' ! d"

function str_nat :: "nat \<Rightarrow> string" where
  "str_nat n = (if n < 10 then [digit_char n] else str_nat (n div 10) @ [digit_char (n mod 10)])"
  by pat_completeness auto
termination
  by (relation "measure id") auto

definition str_int :: "int \<Rightarrow> string" where
  "str_int i = (if i < 0 then CHR ''-'' # str_nat (nat (- i)) else str_nat (nat i))"

text \<open>
  \<^verbatim>\<open>input.replace(old, new)\<close> with two \<^verbatim>\<open>str\<close> arguments, on any value: a
  \<^verbatim>\<open>str\<close> has the method, \<^verbatim>\<open>bytes\<close> has one that refuses \<^verbatim>\<open>str\<close> arguments,
  an object of another class does what its own method does, and the other types have no
  such attribute.
\<close>

fun py_replace :: "pyval \<Rightarrow> string \<Rightarrow> string \<Rightarrow> exn + string" where
  "py_replace (PyStr s) old new = Inr (str_replace old new s)"
| "py_replace (PyBytes b) old new =
     Inl (Exn TypeError (''a bytes-like object is required, not '' @ quoted ''str''))"
| "py_replace (PyObject ty t (ReplaceRaises e)) old new = Inl e"
| "py_replace (PyObject ty t (ReplaceReturns s)) old new = Inr s"
| "py_replace v old new =
     Inl (Exn AttributeError
            (quoted (type_name v) @ '' object has no attribute '' @ quoted ''replace''))"

subsection \<open>JSON values, HTTP requests and responses\<close>

text \<open>
  What \<^verbatim>\<open>response.json()\<close> returns: a JSON object is the Python dict of its members.
  The type \<open>'f\<close> stands for Python's \<^verbatim>\<open>float\<close>; the client passes floats through and
  subtracts two clock readings, nothing else.
\<close>

datatype 'f json =
    JNull
  | JBool bool
  | JInt int
  | JFloat 'f
  | JStr string
  | JArr "'f json list"
  | JObj "(string \<times> 'f json) list"

text \<open>\<^verbatim>\<open>result[key]\<close> for a \<^verbatim>\<open>str\<close> key.\<close>

fun py_getitem :: "'f json \<Rightarrow> string \<Rightarrow> exn + 'f json" where
  "py_getitem (JObj kvs) key =
     (case map_of kvs key of
        None \<Rightarrow> Inl (Exn KeyError (quoted key))
      | Some v \<Rightarrow> Inr v)"
| "py_getitem (JArr xs) key =
     Inl (Exn TypeError ''list indices must be integers or slices, not str'')"
| "py_getitem (JStr s) key =
     Inl (Exn TypeError (''string indices must be integers, not '' @ quoted ''str''))"
| "py_getitem JNull key =
     Inl (Exn TypeError (quoted ''NoneType'' @ '' object is not subscriptable''))"
| "py_getitem (JBool b) key =
     Inl (Exn TypeError (quoted ''bool'' @ '' object is not subscriptable''))"
| "py_getitem (JInt i) key =
     Inl (Exn TypeError (quoted ''int'' @ '' object is not subscriptable''))"
| "py_getitem (JFloat x) key =
     Inl (Exn TypeError (quoted ''float'' @ '' object is not subscriptable''))"

text \<open>
  The arguments of \<^verbatim>\<open>session.post(url, json=payload, timeout=ClientTimeout(total=30))\<close>.
\<close>

record http_request =
  url :: string
  json_payload :: "(string \<times> string) list"
  timeout_total :: nat

text \<open>
  A response: its status, and what awaiting \<^verbatim>\<open>response.json()\<close> and
  \<^verbatim>\<open>response.text()\<close> gives, each a value or a raised exception.
\<close>

record 'f http_response =
  status :: int
  json_body :: "exn + 'f json"
  text_body :: "exn + string"

subsection \<open>The trace and the environment\<close>

type_synonym labels = "(string \<times> string) list"

text \<open>
  Everything the client does to the outside, oldest first: registrations with the metrics
  factory, clock readings, each POST and the answer awaited for it, the two metrics calls.
\<close>

datatype 'f event =
    GetCounter string string "string list"
  | GetSummary string string "string list"
  | Monotonic 'f
  | Post http_request
  | Answer "exn + 'f http_response"
  | Increment string nat labels
  | Observe string 'f labels

text \<open>
  The service answers the \<open>k\<close>-th request of a session (counted from 0): it raises from
  \<^verbatim>\<open>session.post\<close> or gives a response. The clock gives a reading for the trace so far.
\<close>

record 'f env =
  respond :: "nat \<Rightarrow> http_request \<Rightarrow> exn + 'f http_response"
  monotonic :: "'f event list \<Rightarrow> 'f"

subsection \<open>Construction\<close>

text \<open>
  The configuration dictionary, by key, with the types of the docstring. \<open>None\<close> is a
  missing key; for \<^verbatim>\<open>metrics_factory\<close> it is also a key holding Python's \<^verbatim>\<open>None\<close>,
  which \<^verbatim>\<open>config.get\<close> does not tell apart. The class \<^verbatim>\<open>MetricsFactory\<close> is not
  part of these sources: a value is an instance of it or it is not.
\<close>

datatype factory_value = MetricsFactoryInstance | NotMetricsFactory

record config =
  cfg_model :: "string option"
  cfg_base_url :: "string option"
  cfg_metrics_factory :: "factory_value option"
  cfg_user_metrics_labels :: "labels option"

text \<open>
  The attributes of an \<^verbatim>\<open>OllamaEmbedder\<close>. The last three exist only when a metrics
  factory was given. A counter or summary is known by the name it was registered under.
\<close>

record embedder =
  model :: string
  base_url :: string
  endpoint :: string
  collect_metrics :: bool
  user_metrics_labels :: "labels option"
  request_counter :: "string option"
  latency_summary :: "string option"

definition isinstance_MetricsFactory :: "factory_value \<Rightarrow> bool" where
  "isinstance_MetricsFactory v = (v = MetricsFactoryInstance)"

definition init :: "config \<Rightarrow> 'f event list \<Rightarrow> (exn + embedder) \<times> 'f event list" where
  "init cfg tr =
     (let model' = (case cfg_model cfg of None \<Rightarrow> ''nomic-embed-text'' | Some m \<Rightarrow> m);
          base_url' = (case cfg_base_url cfg of None \<Rightarrow> ''http://ollama:11434'' | Some u \<Rightarrow> u);
          endpoint' = base_url' @ ''/api/embeddings'';
          metrics_factory = cfg_metrics_factory cfg
      in if metrics_factory \<noteq> None \<and> \<not> isinstance_MetricsFactory (the metrics_factory)
         then (Inl (Exn TypeError ''Metrics factory must be an instance of MetricsFactory''), tr)
         else if metrics_factory \<noteq> None
         then
           (let labels' = (case cfg_user_metrics_labels cfg of None \<Rightarrow> [] | Some l \<Rightarrow> l);
                label_names = map fst labels'
            in (Inr \<lparr>model = model', base_url = base_url', endpoint = endpoint',
                     collect_metrics = True,
                     user_metrics_labels = Some labels',
                     request_counter = Some ''embedder_ollama_usage_requests'',
                     latency_summary = Some ''embedder_ollama_latency_seconds''\<rparr>,
                tr @ [GetCounter ''embedder_ollama_usage_requests''
                        ''Number of requests to Ollama embedder'' label_names,
                      GetSummary ''embedder_ollama_latency_seconds''
                        ''Latency in seconds for Ollama embedder requests'' label_names]))
         else
           (Inr \<lparr>model = model', base_url = base_url', endpoint = endpoint',
                 collect_metrics = False,
                 user_metrics_labels = None,
                 request_counter = None,
                 latency_summary = None\<rparr>,
            tr))"

subsection \<open>Embedding\<close>

text \<open>
  The comprehension \<^verbatim>\<open>[input.replace("\n", " ") if input else " " for input in inputs]\<close>:
  items are cleaned from the left and the first exception ends it.
\<close>

definition clean_input :: "pyval \<Rightarrow> exn + string" where
  "clean_input input = (if truthy input then py_replace input [CHR 0x0A] '' '' else Inr '' '')"

fun clean_inputs :: "pyval list \<Rightarrow> exn + string list" where
  "clean_inputs [] = Inr []"
| "clean_inputs (input # inputs) =
     (case clean_input input of
        Inl e \<Rightarrow> Inl e
      | Inr s \<Rightarrow> (case clean_inputs inputs of Inl e \<Rightarrow> Inl e | Inr ss \<Rightarrow> Inr (s # ss)))"

text \<open>The request for one cleaned input.\<close>

definition post_request :: "embedder \<Rightarrow> string \<Rightarrow> http_request" where
  "post_request self input_text =
     \<lparr>url = endpoint self,
      json_payload = [(''model'', model self), (''prompt'', input_text)],
      timeout_total = 30\<rparr>"

text \<open>
  The body of the \<^verbatim>\<open>try\<close>, from the answer to the POST on: the value to append, or the
  exception raised.
\<close>

definition read_embedding :: "exn + 'f http_response \<Rightarrow> exn + 'f json" where
  "read_embedding answer =
     (case answer of
        Inl e \<Rightarrow> Inl e
      | Inr response \<Rightarrow>
          if status response = 200
          then (case json_body response of
                  Inl e \<Rightarrow> Inl e
                | Inr result \<Rightarrow> py_getitem result ''embedding'')
          else (case text_body response of
                  Inl e \<Rightarrow> Inl e
                | Inr error_text \<Rightarrow>
                    Inl (Exn ClientError
                           (''Ollama API error '' @ str_int (status response) @ '': ''
                              @ error_text))))"

text \<open>The handler \<^verbatim>\<open>except Exception as e: raise RuntimeError(f"...: {e}")\<close>.\<close>

definition reraise :: "exn \<Rightarrow> exn" where
  "reraise e =
     (if is_Exception (exn_class e)
      then Exn RuntimeError (''Failed to get embedding from Ollama: '' @ exn_str e)
      else e)"

text \<open>
  The loop over the cleaned inputs; \<open>k\<close> counts the requests the session has sent.
\<close>

fun embed_loop ::
  "'f env \<Rightarrow> embedder \<Rightarrow> string list \<Rightarrow> nat \<Rightarrow> 'f json list \<Rightarrow> 'f event list
     \<Rightarrow> (exn + 'f json list) \<times> 'f event list" where
  "embed_loop env self [] k embeddings tr = (Inr embeddings, tr)"
| "embed_loop env self (input_text # rest) k embeddings tr =
     (let request = post_request self input_text;
          answer = respond env k request;
          tr' = tr @ [Post request, Answer answer]
      in case read_embedding answer of
           Inl e \<Rightarrow> (Inl (reraise e), tr')
         | Inr embedding \<Rightarrow> embed_loop env self rest (Suc k) (embeddings @ [embedding]) tr')"

definition no_attribute :: "string \<Rightarrow> exn" where
  "no_attribute name =
     Exn AttributeError
       (quoted ''OllamaEmbedder'' @ '' object has no attribute '' @ quoted name)"

definition embed ::
  "('f::minus) env \<Rightarrow> embedder \<Rightarrow> pyval list \<Rightarrow> 'f event list
     \<Rightarrow> (exn + 'f json list) \<times> 'f event list" where
  "embed env self inputs tr =
     (if inputs = [] then (Inr [], tr)
      else
        (case clean_inputs inputs of
           Inl e \<Rightarrow> (Inl e, tr)
         | Inr cleaned_inputs \<Rightarrow>
             (let start_time = monotonic env tr;
                  tr1 = tr @ [Monotonic start_time];
                  (result, tr2) = embed_loop env self cleaned_inputs 0 [] tr1
              in (case result of
                    Inl e \<Rightarrow> (Inl e, tr2)
                  | Inr embeddings \<Rightarrow>
                      (let end_time = monotonic env tr2;
                           tr3 = tr2 @ [Monotonic end_time]
                       in if collect_metrics self
                          then
                            (case request_counter self of
                               None \<Rightarrow> (Inl (no_attribute ''_request_counter''), tr3)
                             | Some counter \<Rightarrow>
                                 (case user_metrics_labels self of
                                    None \<Rightarrow> (Inl (no_attribute ''_user_metrics_labels''), tr3)
                                  | Some labels' \<Rightarrow>
                                      (let tr4 = tr3 @ [Increment counter (length inputs) labels']
                                       in (case latency_summary self of
                                             None \<Rightarrow>
                                               (Inl (no_attribute ''_latency_summary''), tr4)
                                           | Some summary \<Rightarrow>
                                               (Inr embeddings,
                                                tr4 @ [Observe summary (end_time - start_time)
                                                         labels'])))))
                          else (Inr embeddings, tr3))))))"

definition ingest_embed ::
  "('f::minus) env \<Rightarrow> embedder \<Rightarrow> pyval list \<Rightarrow> 'f event list
     \<Rightarrow> (exn + 'f json list) \<times> 'f event list" where
  "ingest_embed env self inputs tr = embed env self inputs tr"

definition search_embed ::
  "('f::minus) env \<Rightarrow> embedder \<Rightarrow> pyval list \<Rightarrow> 'f event list
     \<Rightarrow> (exn + 'f json list) \<times> 'f event list" where
  "search_embed env self queries tr = embed env self queries tr"

subsection \<open>Notions for the statements\<close>

text \<open>
  What the \<open>k\<close>-th request of a session gives when it carries \<open>text\<close>: the value the
  \<^verbatim>\<open>try\<close> body appends, or the exception it raises.
\<close>

definition item_result :: "'f env \<Rightarrow> embedder \<Rightarrow> nat \<Rightarrow> string \<Rightarrow> exn + 'f json" where
  "item_result env self k text = read_embedding (respond env k (post_request self text))"

text \<open>
  The conversation for a list of texts, starting with request number \<open>k\<close>: one POST for
  each text, in order, each followed by its answer before the next POST.
\<close>

fun exchanges :: "'f env \<Rightarrow> embedder \<Rightarrow> nat \<Rightarrow> string list \<Rightarrow> 'f event list" where
  "exchanges env self k [] = []"
| "exchanges env self k (text # texts) =
     Post (post_request self text) # Answer (respond env k (post_request self text))
       # exchanges env self (Suc k) texts"

text \<open>The values appended for a list of texts when no request fails.\<close>

fun item_values :: "'f env \<Rightarrow> embedder \<Rightarrow> nat \<Rightarrow> string list \<Rightarrow> 'f json list" where
  "item_values env self k [] = []"
| "item_values env self k (text # texts) =
     projr (item_result env self k text) # item_values env self (Suc k) texts"

text \<open>Projections of a trace: the requests posted, the HTTP events, the metrics calls.\<close>

fun posts :: "'f event list \<Rightarrow> http_request list" where
  "posts [] = []"
| "posts (Post r # tr) = r # posts tr"
| "posts (ev # tr) = posts tr"

fun is_http :: "'f event \<Rightarrow> bool" where
  "is_http (Post r) = True"
| "is_http (Answer a) = True"
| "is_http ev = False"

fun is_metrics_call :: "'f event \<Rightarrow> bool" where
  "is_metrics_call (Increment c n l) = True"
| "is_metrics_call (Observe s x l) = True"
| "is_metrics_call ev = False"

fun clock_readings :: "'f event list \<Rightarrow> 'f list" where
  "clock_readings [] = []"
| "clock_readings (Monotonic t # tr) = t # clock_readings tr"
| "clock_readings (ev # tr) = clock_readings tr"

text \<open>
  The failures of a request as the specification lists them: a network error or a timeout
  (\<^verbatim>\<open>session.post\<close> raises), a status other than 200, a malformed body (one that does
  not parse as JSON, or parses to something other than an object with an
  \<^verbatim>\<open>embedding\<close> member).
\<close>

definition request_fails :: "exn + 'f http_response \<Rightarrow> bool" where
  "request_fails answer =
     (case answer of
        Inl e \<Rightarrow> True
      | Inr response \<Rightarrow>
          status response \<noteq> 200 \<or>
          (case json_body response of
             Inl e \<Rightarrow> True
           | Inr result \<Rightarrow>
               (case result of
                  JObj members \<Rightarrow> map_of members ''embedding'' = None
                | _ \<Rightarrow> True)))"

text \<open>The line feed replaced by a space, character by character.\<close>

definition newline_to_space :: "char \<Rightarrow> char" where
  "newline_to_space c = (if c = CHR 0x0A then CHR '' '' else c)"

text \<open>
  The prompt the specification asks for, for an item that is a string or is falsy: the
  string with its line feeds replaced, and one space in place of an empty string or of any
  other falsy item.
\<close>

definition expected_prompt :: "pyval \<Rightarrow> string" where
  "expected_prompt v =
     (case v of
        PyStr s \<Rightarrow> if s = [] then '' '' else map newline_to_space s
      | _ \<Rightarrow> '' '')"

subsection \<open>Example data\<close>

text \<open>
  The scenario of the specification: the inputs \<^verbatim>\<open>["cat", "", "dog\nfood"]\<close> with the
  default model, a service that answers every request with status 200 and an embedding,
  and one whose second answer is a 500.
\<close>

definition example_inputs :: "pyval list" where
  "example_inputs = [PyStr ''cat'', PyStr [], PyStr (''dog'' @ [CHR 0x0A] @ ''food'')]"

text \<open>A string with a line feed, the empty string, and a falsy item of every other kind.\<close>

definition example_inputs_falsy :: "pyval list" where
  "example_inputs_falsy =
     [PyStr (''hello'' @ [CHR 0x0A] @ ''world''), PyStr [], PyNone, PyBool False, PyInt 0,
      PyBytes [], PyList [], PyObject ''dict'' False NoReplace]"



definition example_texts :: "string list" where
  "example_texts = [''cat'', '' '', ''dog food'']"

definition example_config :: config where
  "example_config =
     \<lparr>cfg_model = None, cfg_base_url = None, cfg_metrics_factory = None,
      cfg_user_metrics_labels = None\<rparr>"

definition example_config_metrics :: config where
  "example_config_metrics =
     \<lparr>cfg_model = None, cfg_base_url = None,
      cfg_metrics_factory = Some MetricsFactoryInstance,
      cfg_user_metrics_labels = Some [(''tenant'', ''demo'')]\<rparr>"

definition example_config_wrong_factory :: config where
  "example_config_wrong_factory =
     \<lparr>cfg_model = None, cfg_base_url = None,
      cfg_metrics_factory = Some NotMetricsFactory,
      cfg_user_metrics_labels = None\<rparr>"

definition example_embedder :: embedder where
  "example_embedder =
     \<lparr>model = ''nomic-embed-text'', base_url = ''http://ollama:11434'',
      endpoint = ''http://ollama:11434/api/embeddings'',
      collect_metrics = False, user_metrics_labels = None,
      request_counter = None, latency_summary = None\<rparr>"

definition example_embedder_metrics :: embedder where
  "example_embedder_metrics =
     \<lparr>model = ''nomic-embed-text'', base_url = ''http://ollama:11434'',
      endpoint = ''http://ollama:11434/api/embeddings'',
      collect_metrics = True, user_metrics_labels = Some [(''tenant'', ''demo'')],
      request_counter = Some ''embedder_ollama_usage_requests'',
      latency_summary = Some ''embedder_ollama_latency_seconds''\<rparr>"

definition example_vector :: "nat \<Rightarrow> real json" where
  "example_vector k = JArr [JFloat (real k), JFloat (1 / 2)]"

definition example_service_ok :: "nat \<Rightarrow> http_request \<Rightarrow> exn + real http_response" where
  "example_service_ok k request =
     Inr \<lparr>status = 200,
          json_body = Inr (JObj [(''embedding'', example_vector k)]),
          text_body = Inr ''{}''\<rparr>"

definition example_service_500 :: "nat \<Rightarrow> http_request \<Rightarrow> exn + real http_response" where
  "example_service_500 k request =
     (if k = 1
      then Inr \<lparr>status = 500,
                json_body = Inl (Exn ValueError ''Expecting value''),
                text_body = Inr ''model not found''\<rparr>
      else example_service_ok k request)"

text \<open>A service whose answer is a 500 with a body that cannot be read to its end.\<close>

definition example_service_unreadable :: "nat \<Rightarrow> http_request \<Rightarrow> exn + real http_response" where
  "example_service_unreadable k request =
     Inr \<lparr>status = 500,
          json_body = Inl (Exn ClientError ''Response payload is not completed''),
          text_body = Inl (Exn ClientError ''Response payload is not completed'')\<rparr>"

definition example_clock :: "real event list \<Rightarrow> real" where
  "example_clock tr = real (length tr) / 4"

definition example_env_ok :: "real env" where
  "example_env_ok = \<lparr>respond = example_service_ok, monotonic = example_clock\<rparr>"

definition example_env_500 :: "real env" where
  "example_env_500 = \<lparr>respond = example_service_500, monotonic = example_clock\<rparr>"

definition example_env_unreadable :: "real env" where
  "example_env_unreadable =
     \<lparr>respond = example_service_unreadable, monotonic = example_clock\<rparr>"

section \<open>Properties\<close>

subsection \<open>Cleaning the inputs\<close>

lemma str_replace_newline:
  "str_replace [CHR 0x0A] '' '' s = map newline_to_space s"
  by (induction s) (auto simp: newline_to_space_def)

lemma clean_input_str:
  "clean_input (PyStr s) = Inr (if s = [] then '' '' else map newline_to_space s)"
  by (simp add: clean_input_def str_replace_newline)

lemma clean_input_falsy: "\<not> truthy v \<Longrightarrow> clean_input v = Inr '' ''"
  by (simp add: clean_input_def)

lemma clean_input_expected:
  "(\<exists>s. v = PyStr s) \<or> \<not> truthy v \<Longrightarrow> clean_input v = Inr (expected_prompt v)"
  by (cases v) (auto simp: clean_input_def expected_prompt_def str_replace_newline)

lemma clean_inputs_expected:
  "\<forall>v\<in>set inputs. (\<exists>s. v = PyStr s) \<or> \<not> truthy v \<Longrightarrow>
   clean_inputs inputs = Inr (map expected_prompt inputs)"
  by (induction inputs) (simp_all add: clean_input_expected)

lemma expected_prompt_nonempty:
  "(\<exists>s. v = PyStr s) \<or> \<not> truthy v \<Longrightarrow> expected_prompt v \<noteq> []"
  by (cases v) (auto simp: expected_prompt_def)

lemma clean_inputs_length: "clean_inputs inputs = Inr texts \<Longrightarrow> length texts = length inputs"
  by (induction inputs arbitrary: texts) (auto split: sum.splits)

lemma clean_inputs_nth:
  "clean_inputs inputs = Inr texts \<Longrightarrow> j < length inputs \<Longrightarrow> clean_input (inputs ! j) = Inr (texts ! j)"
proof (induction inputs arbitrary: texts j)
  case Nil
  then show ?case by simp
next
  case (Cons v vs)
  then show ?case by (cases j) (auto split: sum.splits)
qed


subsection \<open>The request loop\<close>

lemma exchanges_append:
  "exchanges env self k (xs @ ys) = exchanges env self k xs @ exchanges env self (k + length xs) ys"
  by (induction xs arbitrary: k) auto

lemma item_values_length: "length (item_values env self k texts) = length texts"
  by (induction texts arbitrary: k) auto

lemma item_values_nth:
  "j < length texts \<Longrightarrow>
   item_values env self k texts ! j = projr (item_result env self (k + j) (texts ! j))"
proof (induction texts arbitrary: k j)
  case Nil
  then show ?case by simp
next
  case (Cons t ts)
  then show ?case by (cases j) auto
qed

lemma embed_loop_ok:
  "\<forall>j<length ts. \<not> isl (item_result env self (k + j) (ts ! j)) \<Longrightarrow>
   embed_loop env self (ts @ rest) k acc tr =
     embed_loop env self rest (k + length ts) (acc @ item_values env self k ts)
       (tr @ exchanges env self k ts)"
proof (induction ts arbitrary: k acc tr)
  case Nil
  then show ?case by simp
next
  case (Cons t ts)
  from Cons.prems have ok: "\<not> isl (item_result env self k t)" by force
  then obtain v where v: "item_result env self k t = Inr v"
    by (cases "item_result env self k t") auto
  from Cons.prems have rest: "\<forall>j<length ts. \<not> isl (item_result env self (Suc k + j) (ts ! j))"
    by force
  show ?case
    using v Cons.IH [OF rest] by (simp add: item_result_def Let_def)
qed

lemma embed_loop_raises:
  "item_result env self k t = Inl e \<Longrightarrow>
   embed_loop env self (t # rest) k acc tr = (Inl (reraise e), tr @ exchanges env self k [t])"
  by (simp add: item_result_def Let_def)

lemma embed_loop_all_ok:
  assumes "\<forall>j<length ts. \<not> isl (item_result env self j (ts ! j))"
  shows "embed_loop env self ts 0 [] tr = (Inr (item_values env self 0 ts), tr @ exchanges env self 0 ts)"
  using embed_loop_ok [of ts env self 0 "[]" "[]" tr] assms by simp

lemma embed_loop_first_failure:
  assumes "i < length ts"
    and "\<forall>j<i. \<not> isl (item_result env self j (ts ! j))"
    and "item_result env self i (ts ! i) = Inl e"
  shows "embed_loop env self ts 0 [] tr = (Inl (reraise e), tr @ exchanges env self 0 (take (Suc i) ts))"
proof -
  have split: "ts = take i ts @ ts ! i # drop (Suc i) ts"
    using assms(1) by (simp add: id_take_nth_drop)
  have pre: "\<forall>j<length (take i ts). \<not> isl (item_result env self (0 + j) (take i ts ! j))"
    using assms(1,2) by simp
  have "embed_loop env self ts 0 [] tr =
        embed_loop env self (take i ts @ ts ! i # drop (Suc i) ts) 0 [] tr"
    using split by simp
  also have "\<dots> = embed_loop env self (ts ! i # drop (Suc i) ts) i (item_values env self 0 (take i ts))
                     (tr @ exchanges env self 0 (take i ts))"
    using embed_loop_ok [OF pre, of "ts ! i # drop (Suc i) ts" "[]" tr] assms(1) by simp
  also have "\<dots> = (Inl (reraise e), (tr @ exchanges env self 0 (take i ts)) @ exchanges env self i [ts ! i])"
    by (rule embed_loop_raises [OF assms(3)])
  also have "(tr @ exchanges env self 0 (take i ts)) @ exchanges env self i [ts ! i]
             = tr @ exchanges env self 0 (take (Suc i) ts)"
    using assms(1) by (simp add: take_Suc_conv_app_nth exchanges_append)
  finally show ?thesis .
qed


subsection \<open>Whole calls\<close>

lemma posts_exchanges: "posts (exchanges env self k texts) = map (post_request self) texts"
  by (induction texts arbitrary: k) auto

lemma http_exchanges: "filter is_http (exchanges env self k texts) = exchanges env self k texts"
  by (induction texts arbitrary: k) auto

lemma metrics_exchanges: "filter is_metrics_call (exchanges env self k texts) = []"
  by (induction texts arbitrary: k) auto

lemma embed_clean_raises:
  "clean_inputs inputs = Inl e \<Longrightarrow> embed env self inputs tr = (Inl e, tr)"
  by (cases inputs) (auto simp: embed_def)

lemma embed_first_failure:
  assumes "clean_inputs inputs = Inr texts"
    and "i < length texts"
    and "\<forall>j<i. \<not> isl (item_result env self j (texts ! j))"
    and "item_result env self i (texts ! i) = Inl e"
  shows "embed env self inputs tr =
           (Inl (reraise e),
            tr @ Monotonic (monotonic env tr) # exchanges env self 0 (take (Suc i) texts))"
proof -
  have "inputs \<noteq> []"
    using assms(1,2) by (auto)
  then show ?thesis
    using assms(1) embed_loop_first_failure [OF assms(2,3,4)]
    by (simp add: embed_def Let_def)
qed

lemma embed_all_ok:
  assumes "inputs \<noteq> []"
    and "clean_inputs inputs = Inr texts"
    and "\<forall>j<length texts. \<not> isl (item_result env self j (texts ! j))"
    and "collect_metrics self \<Longrightarrow>
           request_counter self = Some c \<and> user_metrics_labels self = Some l
             \<and> latency_summary self = Some s"
    and "t0 = monotonic env tr"
    and "t1 = monotonic env (tr @ Monotonic t0 # exchanges env self 0 texts)"
  shows "embed env self inputs tr =
           (Inr (item_values env self 0 texts),
            tr @ Monotonic t0 # exchanges env self 0 texts @ Monotonic t1
              # (if collect_metrics self
                 then [Increment c (length inputs) l, Observe s (t1 - t0) l] else []))"
  using assms(1,2,4,5,6) embed_loop_all_ok [OF assms(3)]
  by (simp add: embed_def Let_def)

lemma embed_all_ok_http:
  assumes "inputs \<noteq> []"
    and "clean_inputs inputs = Inr texts"
    and "\<forall>j<length texts. \<not> isl (item_result env self j (texts ! j))"
  shows "filter is_http (drop (length tr) (snd (embed env self inputs tr)))
           = exchanges env self 0 texts"
  using assms(1,2) embed_loop_all_ok [OF assms(3)]
  by (simp add: embed_def Let_def http_exchanges split: option.splits)

lemma first_failure:
  assumes "i < length texts" and "isl (item_result env self i (texts ! i))"
  obtains j where "j \<le> i"
    and "isl (item_result env self j (texts ! j))"
    and "\<forall>m<j. \<not> isl (item_result env self m (texts ! m))"
proof -
  let ?P = "\<lambda>n. isl (item_result env self n (texts ! n))"
  have "\<exists>n. ?P n" using assms(2) by blast
  then obtain j where j: "?P j" "\<forall>m<j. \<not> ?P m"
    using exists_least_iff [of ?P] by blast
  have "j \<le> i"
  proof (rule ccontr)
    assume "\<not> j \<le> i"
    then have "i < j" by simp
    with j(2) assms(2) show False by blast
  qed
  with j show ?thesis using that by blast
qed

lemma init_Inr:
  assumes "fst (init cfg tr0) = Inr self"
  shows "model self = (case cfg_model cfg of None \<Rightarrow> ''nomic-embed-text'' | Some m \<Rightarrow> m)"
    and "base_url self = (case cfg_base_url cfg of None \<Rightarrow> ''http://ollama:11434'' | Some u \<Rightarrow> u)"
    and "endpoint self = base_url self @ ''/api/embeddings''"
    and "collect_metrics self = (cfg_metrics_factory cfg \<noteq> None)"
    and "collect_metrics self \<Longrightarrow>
           request_counter self = Some ''embedder_ollama_usage_requests''
           \<and> user_metrics_labels self = Some (case cfg_user_metrics_labels cfg of None \<Rightarrow> [] | Some l \<Rightarrow> l)
           \<and> latency_summary self = Some ''embedder_ollama_latency_seconds''"
  using assms by (auto simp: init_def Let_def split: if_splits)

subsection \<open>Failing and succeeding requests\<close>

lemma request_fails_iff: "isl (read_embedding answer) = request_fails answer"
  by (auto simp: read_embedding_def request_fails_def split: sum.splits json.splits option.splits)

lemma item_fails_iff:
  "isl (item_result env self k text) = request_fails (respond env k (post_request self text))"
  by (simp add: item_result_def request_fails_iff)

lemma read_embedding_Inr:
  "read_embedding answer = Inr v \<Longrightarrow>
   \<exists>response members. answer = Inr response \<and> status response = 200
      \<and> json_body response = Inr (JObj members) \<and> map_of members ''embedding'' = Some v"
  by (auto simp: read_embedding_def split: sum.splits json.splits option.splits if_splits
      elim!: py_getitem.elims)

lemma is_Exception_iff: "is_Exception c = (c \<noteq> CancelledError)"
  by (cases c) auto

subsection \<open>What a call leaves in the trace\<close>

lemma posts_filter_http: "posts (filter is_http tr) = posts tr"
  by (induction tr rule: posts.induct) auto

lemma clock_readings_append:
  "clock_readings (tr @ tr') = clock_readings tr @ clock_readings tr'"
  by (induction tr rule: clock_readings.induct) auto

lemma clock_readings_exchanges: "clock_readings (exchanges env self k texts) = []"
  by (induction texts arbitrary: k) auto

lemma leading_ok:
  obtains n where "n \<le> length texts"
    and "\<forall>j<n. \<not> isl (item_result env self j (texts ! j))"
    and "n < length texts \<longrightarrow> isl (item_result env self n (texts ! n))"
proof (cases "\<exists>i<length texts. isl (item_result env self i (texts ! i))")
  case True
  then obtain i where i: "i < length texts" "isl (item_result env self i (texts ! i))"
    by blast
  then obtain j where "j \<le> i" "isl (item_result env self j (texts ! j))"
      "\<forall>m<j. \<not> isl (item_result env self m (texts ! m))"
    using first_failure [of i texts env self] by blast
  with i(1) show ?thesis using that [of j] by simp
next
  case False
  then show ?thesis using that [of "length texts"] by simp
qed

lemma embed_http:
  assumes "clean_inputs inputs = Inr texts"
    and "n \<le> length texts"
    and "\<forall>j<n. \<not> isl (item_result env self j (texts ! j))"
    and "n < length texts \<longrightarrow> isl (item_result env self n (texts ! n))"
  shows "filter is_http (drop (length tr) (snd (embed env self inputs tr)))
           = exchanges env self 0 (take (Suc n) texts)"
proof (cases "n < length texts")
  case True
  with assms(4) obtain e where e: "item_result env self n (texts ! n) = Inl e"
    by (cases "item_result env self n (texts ! n)") auto
  show ?thesis
    using embed_first_failure [OF assms(1) True assms(3) e, of tr]
    by (simp add: http_exchanges)
next
  case False
  with assms(2) have n: "n = length texts" by simp
  show ?thesis
  proof (cases "inputs = []")
    case True
    with assms(1) have "texts = []" by simp
    with True show ?thesis by (simp add: embed_def)
  next
    case False
    from embed_all_ok_http [OF False assms(1), of env self tr] assms(3) n
    show ?thesis by simp
  qed
qed

lemma embed_no_metrics:
  assumes "\<not> collect_metrics self"
  shows "filter is_metrics_call (drop (length tr) (snd (embed env self inputs tr))) = []"
proof (cases "inputs = []")
  case True
  then show ?thesis by (simp add: embed_def)
next
  case nonempty: False
  show ?thesis
  proof (cases "clean_inputs inputs")
    case (Inl e)
    then show ?thesis by (simp add: embed_clean_raises)
  next
    case (Inr texts)
    obtain n where n: "n \<le> length texts"
        "\<forall>j<n. \<not> isl (item_result env self j (texts ! j))"
        "n < length texts \<longrightarrow> isl (item_result env self n (texts ! n))"
      by (rule leading_ok)
    show ?thesis
    proof (cases "n < length texts")
      case True
      with n(3) obtain e where e: "item_result env self n (texts ! n) = Inl e"
        by (cases "item_result env self n (texts ! n)") auto
      show ?thesis
        using embed_first_failure [OF Inr True n(2) e, of tr]
        by (simp add: metrics_exchanges)
    next
      case False
      with n(1,2) have ok: "\<forall>j<length texts. \<not> isl (item_result env self j (texts ! j))"
        by simp
      have none: "collect_metrics self \<Longrightarrow>
           request_counter self = Some [] \<and> user_metrics_labels self = Some []
             \<and> latency_summary self = Some []"
        using assms by simp
      show ?thesis
        using embed_all_ok [OF nonempty Inr ok none refl refl, of tr] assms
        by (simp add: metrics_exchanges)
    qed
  qed
qed

lemma embed_Inr_all_ok:
  assumes "fst (embed env self inputs tr) = Inr out"
    and "inputs \<noteq> []"
  obtains texts where "clean_inputs inputs = Inr texts"
    and "\<forall>j<length texts. \<not> isl (item_result env self j (texts ! j))"
proof (cases "clean_inputs inputs")
  case (Inl e)
  with assms(1) show ?thesis by (simp add: embed_clean_raises)
next
  case (Inr texts)
  have "\<not> isl (item_result env self i (texts ! i))" if "i < length texts" for i
  proof
    assume "isl (item_result env self i (texts ! i))"
    with that obtain j where j: "j \<le> i" "isl (item_result env self j (texts ! j))"
        "\<forall>m<j. \<not> isl (item_result env self m (texts ! m))"
      using first_failure [of i texts env self] by blast
    from j(2) obtain e where e: "item_result env self j (texts ! j) = Inl e"
      by (cases "item_result env self j (texts ! j)") auto
    have "j < length texts" using j(1) that by simp
    from embed_first_failure [OF Inr this j(3) e, of tr] assms(1)
    show False by simp
  qed
  with Inr show ?thesis using that by blast
qed






subsection \<open>The examples\<close>

lemma example_clean: "clean_inputs example_inputs = Inr example_texts"
  by (simp add: example_inputs_def example_texts_def clean_input_def)

lemma example_ok_never_fails: "\<not> request_fails (respond example_env_ok k request)"
  by (simp add: request_fails_def example_env_ok_def example_service_ok_def)

lemma example_init: "fst (init example_config ([] :: real event list)) = Inr example_embedder"
  by (simp add: init_def example_config_def example_embedder_def Let_def)

lemma example_init_metrics:
  "fst (init example_config_metrics ([] :: real event list)) = Inr example_embedder_metrics"
  by (simp add: init_def example_config_metrics_def example_embedder_metrics_def Let_def
      isinstance_MetricsFactory_def)

lemma example_nonempty: "example_inputs \<noteq> []" "length example_inputs = 3"
  by (simp_all add: example_inputs_def)

lemma example_run_ok:
  "fst (embed example_env_ok example_embedder example_inputs []) =
     Inr [example_vector 0, example_vector 1, example_vector 2]"
  by (simp add: embed_def example_clean example_texts_def Let_def read_embedding_def
      example_env_ok_def example_service_ok_def example_embedder_def example_nonempty
      numeral_2_eq_2)

lemma example_500_second:
  "read_embedding (respond example_env_500 1 request) =
     Inl (Exn ClientError ''Ollama API error 500: model not found'')"
  by (simp add: read_embedding_def example_env_500_def example_service_500_def
      str_int_def digit_char_def)

lemma example_run_metrics:
  "embed example_env_ok example_embedder_metrics example_inputs [] =
     (Inr [example_vector 0, example_vector 1, example_vector 2],
      [Monotonic 0,
       Post (post_request example_embedder_metrics ''cat''),
       Answer (example_service_ok 0 (post_request example_embedder_metrics ''cat'')),
       Post (post_request example_embedder_metrics '' ''),
       Answer (example_service_ok 1 (post_request example_embedder_metrics '' '')),
       Post (post_request example_embedder_metrics ''dog food''),
       Answer (example_service_ok 2 (post_request example_embedder_metrics ''dog food'')),
       Monotonic (7 / 4),
       Increment ''embedder_ollama_usage_requests'' 3 [(''tenant'', ''demo'')],
       Observe ''embedder_ollama_latency_seconds'' (7 / 4) [(''tenant'', ''demo'')]])"
  by (simp add: embed_def example_clean example_texts_def Let_def read_embedding_def
      example_env_ok_def example_service_ok_def example_embedder_metrics_def example_nonempty
      example_clock_def numeral_2_eq_2)

lemma example_falsy_items:
  "\<forall>v\<in>set example_inputs_falsy. (\<exists>s. v = PyStr s) \<or> \<not> truthy v"
  by (simp add: example_inputs_falsy_def)

lemma example_falsy_prompts:
  "map expected_prompt example_inputs_falsy =
     [''hello world'', '' '', '' '', '' '', '' '', '' '', '' '', '' '']"
  by (simp add: example_inputs_falsy_def expected_prompt_def newline_to_space_def)

section \<open>The claims\<close>

text \<open>
  C5. For the empty input list the embed operation returns the empty list at once: the
  trace is returned as it was, so no HTTP request is issued, the clock is not read and no
  counter increment or latency observation is made, whatever the embedder, metrics enabled
  or not. This holds for the shared procedure and for both entry points.
\<close>

theorem empty_input_short_circuits:
  "embed env self [] tr = (Inr [], tr)
   \<and> ingest_embed env self [] tr = (Inr [], tr)
   \<and> search_embed env self [] tr = (Inr [], tr)"
  by (simp add: embed_def ingest_embed_def search_embed_def)

theorem empty_input_short_circuits_witness:
  "ingest_embed example_env_ok example_embedder_metrics [] [Monotonic 7] = (Inr [], [Monotonic 7])
   \<and> search_embed example_env_500 example_embedder_metrics [] [] = (Inr [], [])"
  using empty_input_short_circuits [of example_env_ok example_embedder_metrics "[Monotonic 7]"]
    empty_input_short_circuits [of example_env_500 example_embedder_metrics "[]"]
  by simp

text \<open>
  C8. The ingest-time and the query-time entry points give the same result and the same
  trace for every input list, every embedder, every service and clock, and every trace so
  far: both are the shared procedure.
\<close>

theorem ingest_and_search_agree:
  "ingest_embed env self inputs tr = search_embed env self inputs tr
   \<and> ingest_embed env self inputs tr = embed env self inputs tr"
  by (simp add: ingest_embed_def search_embed_def)

theorem ingest_and_search_agree_witness:
  "ingest_embed example_env_500 example_embedder example_inputs []
     = search_embed example_env_500 example_embedder example_inputs []"
  using ingest_and_search_agree [of example_env_500 example_embedder example_inputs "[]"]
  by simp

text \<open>
  C7. Construction with a \<^verbatim>\<open>metrics_factory\<close> that is not a \<^verbatim>\<open>MetricsFactory\<close>
  instance raises the TypeError and leaves the trace as it was: no counter or summary has
  been registered and no request made. Without a \<^verbatim>\<open>metrics_factory\<close> construction
  succeeds, registers nothing and metrics collection is off.
\<close>

theorem wrong_metrics_factory_rejected:
  "(cfg_metrics_factory cfg = Some NotMetricsFactory \<longrightarrow>
      init cfg tr =
        (Inl (Exn TypeError ''Metrics factory must be an instance of MetricsFactory''), tr))
   \<and> (cfg_metrics_factory cfg = None \<longrightarrow>
        (\<exists>self. init cfg tr = (Inr self, tr) \<and> \<not> collect_metrics self))"
  by (simp add: init_def Let_def isinstance_MetricsFactory_def)

theorem wrong_metrics_factory_rejected_witness:
  "cfg_metrics_factory example_config_wrong_factory = Some NotMetricsFactory
   \<and> init example_config_wrong_factory ([] :: real event list) =
       (Inl (Exn TypeError ''Metrics factory must be an instance of MetricsFactory''), [])
   \<and> cfg_metrics_factory example_config = None
   \<and> fst (init example_config [Monotonic (1::real)]) = Inr example_embedder
   \<and> snd (init example_config [Monotonic (1::real)]) = [Monotonic 1]"
proof -
  have bad: "cfg_metrics_factory example_config_wrong_factory = Some NotMetricsFactory"
    by (simp add: example_config_wrong_factory_def)
  have absent: "cfg_metrics_factory example_config = None"
    by (simp add: example_config_def)
  have built: "fst (init example_config [Monotonic (1::real)]) = Inr example_embedder"
    by (simp add: init_def example_config_def example_embedder_def Let_def)
  from wrong_metrics_factory_rejected [of example_config "[Monotonic (1::real)]"] absent
  obtain self where "init example_config [Monotonic (1::real)] = (Inr self, [Monotonic 1])"
    by blast
  then have "snd (init example_config [Monotonic (1::real)]) = [Monotonic 1]"
    by simp
  with wrong_metrics_factory_rejected [of example_config_wrong_factory "[] :: real event list"]
    bad absent built
  show ?thesis by simp
qed

text \<open>
  C1. For a non-empty input list of length \<open>N\<close> whose requests all succeed, both entry
  points return a list of \<open>N\<close> values, and the value at position \<open>i\<close> is the
  \<^verbatim>\<open>embedding\<close> member of the JSON object of the status-200 response to the
  \<open>i\<close>-th request, the one that carries the cleaned text of input \<open>i\<close>. The embedder is
  one that the constructor built.
\<close>

theorem embed_returns_every_embedding:
  assumes "fst (init cfg tr0) = Inr self"
    and "inputs \<noteq> []"
    and "clean_inputs inputs = Inr texts"
    and "\<forall>i<length inputs. \<not> request_fails (respond env i (post_request self (texts ! i)))"
  shows "\<exists>out tr'. ingest_embed env self inputs tr = (Inr out, tr')
           \<and> search_embed env self inputs tr = (Inr out, tr')
           \<and> length out = length inputs
           \<and> (\<forall>i<length inputs. \<exists>response members.
                 respond env i (post_request self (texts ! i)) = Inr response
                 \<and> status response = 200
                 \<and> json_body response = Inr (JObj members)
                 \<and> map_of members ''embedding'' = Some (out ! i))"
proof -
  have len: "length texts = length inputs"
    using assms(3) by (rule clean_inputs_length)
  have ok: "\<forall>j<length texts. \<not> isl (item_result env self j (texts ! j))"
    using assms(4) len by (simp add: item_fails_iff)
  let ?out = "item_values env self 0 texts"
  obtain tr' where run: "embed env self inputs tr = (Inr ?out, tr')"
    using embed_all_ok [OF assms(2,3) ok init_Inr(5) [OF assms(1)] refl refl] by blast
  have "\<exists>response members.
          respond env i (post_request self (texts ! i)) = Inr response
          \<and> status response = 200
          \<and> json_body response = Inr (JObj members)
          \<and> map_of members ''embedding'' = Some (?out ! i)"
    if "i < length inputs" for i
  proof -
    from that len ok have "\<not> isl (item_result env self i (texts ! i))" by simp
    then have "item_result env self i (texts ! i) = Inr (projr (item_result env self i (texts ! i)))"
      by (cases "item_result env self i (texts ! i)") auto
    moreover have "?out ! i = projr (item_result env self i (texts ! i))"
      using that len item_values_nth [of i texts env self 0] by simp
    ultimately have "read_embedding (respond env i (post_request self (texts ! i))) = Inr (?out ! i)"
      by (simp add: item_result_def)
    then show ?thesis by (rule read_embedding_Inr)
  qed
  then show ?thesis
    using run len by (auto simp: ingest_embed_def search_embed_def item_values_length)
qed

theorem embed_returns_every_embedding_witness:
  "example_inputs \<noteq> []
   \<and> clean_inputs example_inputs = Inr example_texts
   \<and> fst (ingest_embed example_env_ok example_embedder example_inputs []) =
       Inr [example_vector 0, example_vector 1, example_vector 2]"
proof -
  have nonempty: "example_inputs \<noteq> []"
    by (simp add: example_inputs_def)
  have ok: "\<forall>i<length example_inputs.
      \<not> request_fails (respond example_env_ok i (post_request example_embedder (example_texts ! i)))"
    by (simp add: example_ok_never_fails)
  from embed_returns_every_embedding [OF example_init nonempty example_clean ok, of "[]"]
  obtain out tr' where "ingest_embed example_env_ok example_embedder example_inputs [] = (Inr out, tr')"
    by blast
  then show ?thesis
    using nonempty example_clean example_run_ok by (simp add: ingest_embed_def)
qed

text \<open>
  C2. If the request for any one item fails (\<^verbatim>\<open>session.post\<close> raises, the status is
  not 200, or the body is malformed), the whole embed operation raises: its result is an
  exception, the one the handler makes of the first failing request, and no list of
  embeddings, so what earlier items had appended is gone.
\<close>

theorem one_failure_fails_the_call:
  assumes "clean_inputs inputs = Inr texts"
    and "i < length inputs"
    and "request_fails (respond env i (post_request self (texts ! i)))"
  shows "\<exists>j cause tr'. j \<le> i
           \<and> read_embedding (respond env j (post_request self (texts ! j))) = Inl cause
           \<and> embed env self inputs tr = (Inl (reraise cause), tr')"
proof -
  have len: "length texts = length inputs"
    using assms(1) by (rule clean_inputs_length)
  have "isl (item_result env self i (texts ! i))"
    using assms(3) by (simp add: item_fails_iff)
  with assms(2) len obtain j where j: "j \<le> i"
      "isl (item_result env self j (texts ! j))"
      "\<forall>m<j. \<not> isl (item_result env self m (texts ! m))"
    using first_failure [of i texts env self] by auto
  from j(2) obtain cause where cause: "item_result env self j (texts ! j) = Inl cause"
    by (cases "item_result env self j (texts ! j)") auto
  have "j < length texts"
    using j(1) assms(2) len by simp
  from embed_first_failure [OF assms(1) this j(3) cause]
  show ?thesis
    using j(1) cause by (auto simp: item_result_def)
qed

theorem one_failure_fails_the_call_witness:
  "clean_inputs example_inputs = Inr example_texts
   \<and> (1::nat) < length example_inputs
   \<and> request_fails (respond example_env_500 1 (post_request example_embedder (example_texts ! 1)))
   \<and> isl (fst (embed example_env_500 example_embedder example_inputs []))"
proof -
  have second: "(1::nat) < length example_inputs"
    by (simp add: example_inputs_def)
  have fails: "request_fails (respond example_env_500 1 (post_request example_embedder (example_texts ! 1)))"
    by (simp add: request_fails_def example_env_500_def example_service_500_def)
  from one_failure_fails_the_call [OF example_clean second fails, of "[]"]
  have "isl (fst (embed example_env_500 example_embedder example_inputs []))"
    by auto
  with second fails example_clean show ?thesis by simp
qed

text \<open>
  C3, as stated, fails in its last clause: for a status other than 200 the code reads the
  body text inside the \<^verbatim>\<open>try\<close>, and when that read raises, what is wrapped is the
  exception of the read, which carries neither the status code nor the body text.
\<close>

theorem unreadable_body_counterexample:
  "respond example_env_unreadable 0 (post_request example_embedder ''cat'') =
     Inr \<lparr>status = 500,
          json_body = Inl (Exn ClientError ''Response payload is not completed''),
          text_body = Inl (Exn ClientError ''Response payload is not completed'')\<rparr>
   \<and> fst (embed example_env_unreadable example_embedder [PyStr ''cat''] []) =
       Inl (Exn RuntimeError
              ''Failed to get embedding from Ollama: Response payload is not completed'')"
  by (simp add: embed_def clean_input_def Let_def read_embedding_def reraise_def
      example_env_unreadable_def example_service_unreadable_def)

text \<open>
  C3, amended. The first request that fails ends the call, and what the call raises is
  made from the cause: a RuntimeError whose message is
  \<^verbatim>\<open>Failed to get embedding from Ollama: \<close> followed by the cause's description. The
  cause is the exception that \<^verbatim>\<open>session.post\<close> raised (a network error, a timeout); for
  a status other than 200, the client error with the status code and the body text when
  the body text was read, and the exception of the read when it was not; for a status 200,
  the exception of \<^verbatim>\<open>response.json()\<close>, the KeyError of a JSON object without an
  \<^verbatim>\<open>embedding\<close> member, or the TypeError of subscripting a JSON value that is no
  object. Only \<^verbatim>\<open>asyncio.CancelledError\<close>, which is no \<^verbatim>\<open>Exception\<close> and none of the
  failures the claim lists, passes unwrapped.
\<close>

theorem failures_reraised_uniformly:
  assumes "clean_inputs inputs = Inr texts"
    and "i < length inputs"
    and "\<forall>j<i. \<not> request_fails (respond env j (post_request self (texts ! j)))"
    and "request_fails answer"
    and "answer = respond env i (post_request self (texts ! i))"
  shows "\<exists>cause. read_embedding answer = Inl cause
           \<and> fst (embed env self inputs tr) =
               Inl (if exn_class cause = CancelledError then cause
                    else Exn RuntimeError
                           (''Failed to get embedding from Ollama: '' @ exn_str cause))
           \<and> (\<forall>e. answer = Inl e \<longrightarrow> cause = e)
           \<and> (\<forall>response body.
                 answer = Inr response \<and> status response \<noteq> 200
                   \<and> text_body response = Inr body \<longrightarrow>
                 cause = Exn ClientError
                           (''Ollama API error '' @ str_int (status response) @ '': '' @ body))
           \<and> (\<forall>response e.
                 answer = Inr response \<and> status response \<noteq> 200
                   \<and> text_body response = Inl e \<longrightarrow> cause = e)
           \<and> (\<forall>response e.
                 answer = Inr response \<and> status response = 200
                   \<and> json_body response = Inl e \<longrightarrow> cause = e)
           \<and> (\<forall>response members.
                 answer = Inr response \<and> status response = 200
                   \<and> json_body response = Inr (JObj members)
                   \<and> map_of members ''embedding'' = None \<longrightarrow>
                 cause = Exn KeyError (quoted ''embedding''))
           \<and> (\<forall>response result.
                 answer = Inr response \<and> status response = 200
                   \<and> json_body response = Inr result
                   \<and> (\<forall>members. result \<noteq> JObj members) \<longrightarrow>
                 exn_class cause = TypeError)"
proof -
  have len: "length texts = length inputs"
    using assms(1) by (rule clean_inputs_length)
  have "isl (read_embedding answer)"
    using assms(4) by (simp add: request_fails_iff)
  then obtain cause where cause: "read_embedding answer = Inl cause"
    by (cases "read_embedding answer") auto
  have item: "item_result env self i (texts ! i) = Inl cause"
    using cause assms(5) by (simp add: item_result_def)
  have before: "\<forall>j<i. \<not> isl (item_result env self j (texts ! j))"
    using assms(3) by (simp add: item_fails_iff)
  have i: "i < length texts"
    using assms(2) len by simp
  have run: "fst (embed env self inputs tr) = Inl (reraise cause)"
    using embed_first_failure [OF assms(1) i before item] by simp
  have wrapped: "reraise cause =
      (if exn_class cause = CancelledError then cause
       else Exn RuntimeError (''Failed to get embedding from Ollama: '' @ exn_str cause))"
    by (simp add: reraise_def is_Exception_iff)
  have transport: "\<forall>e. answer = Inl e \<longrightarrow> cause = e"
    using cause by (auto simp: read_embedding_def)
  have not_ok: "\<forall>response body.
      answer = Inr response \<and> status response \<noteq> 200 \<and> text_body response = Inr body \<longrightarrow>
      cause = Exn ClientError
                (''Ollama API error '' @ str_int (status response) @ '': '' @ body)"
    using cause by (auto simp: read_embedding_def)
  have unreadable: "\<forall>response e.
      answer = Inr response \<and> status response \<noteq> 200 \<and> text_body response = Inl e \<longrightarrow>
      cause = e"
    using cause by (auto simp: read_embedding_def)
  have bad_json: "\<forall>response e.
      answer = Inr response \<and> status response = 200 \<and> json_body response = Inl e \<longrightarrow> cause = e"
    using cause by (auto simp: read_embedding_def)
  have no_member: "\<forall>response members.
      answer = Inr response \<and> status response = 200
        \<and> json_body response = Inr (JObj members) \<and> map_of members ''embedding'' = None \<longrightarrow>
      cause = Exn KeyError (quoted ''embedding'')"
    using cause by (auto simp: read_embedding_def)
  have no_object: "\<forall>response result.
      answer = Inr response \<and> status response = 200 \<and> json_body response = Inr result
        \<and> (\<forall>members. result \<noteq> JObj members) \<longrightarrow>
      exn_class cause = TypeError"
  proof (intro allI impI)
    fix response result
    assume a: "answer = Inr response \<and> status response = 200 \<and> json_body response = Inr result
        \<and> (\<forall>members. result \<noteq> JObj members)"
    with cause have "py_getitem result ''embedding'' = Inl cause"
      by (simp add: read_embedding_def)
    with a show "exn_class cause = TypeError"
      by (cases result) auto
  qed
  show ?thesis
    using cause run wrapped transport not_ok unreadable bad_json no_member no_object
    by (intro exI [of _ cause]) simp
qed

theorem failures_reraised_uniformly_witness:
  "clean_inputs example_inputs = Inr example_texts
   \<and> \<not> request_fails (respond example_env_500 0 (post_request example_embedder (example_texts ! 0)))
   \<and> request_fails (respond example_env_500 1 (post_request example_embedder (example_texts ! 1)))
   \<and> fst (embed example_env_500 example_embedder example_inputs []) =
       Inl (Exn RuntimeError
         ''Failed to get embedding from Ollama: Ollama API error 500: model not found'')"
proof -
  let ?answer = "respond example_env_500 1 (post_request example_embedder (example_texts ! 1))"
  have second: "(1::nat) < length example_inputs"
    by (simp add: example_nonempty)
  have first_ok: "\<not> request_fails (respond example_env_500 0 (post_request example_embedder (example_texts ! 0)))"
    by (simp add: request_fails_def example_env_500_def example_service_500_def
        example_service_ok_def)
  then have before: "\<forall>j<1. \<not> request_fails (respond example_env_500 j (post_request example_embedder (example_texts ! j)))"
    by simp
  have fails: "request_fails ?answer"
    by (simp add: request_fails_def example_env_500_def example_service_500_def)
  from failures_reraised_uniformly [OF example_clean second before fails refl, of "[]"]
  obtain cause where cause: "read_embedding ?answer = Inl cause"
    and run: "fst (embed example_env_500 example_embedder example_inputs []) =
               Inl (if exn_class cause = CancelledError then cause
                    else Exn RuntimeError
                           (''Failed to get embedding from Ollama: '' @ exn_str cause))"
    by blast
  from cause example_500_second [of "post_request example_embedder (example_texts ! 1)"]
  have "cause = Exn ClientError ''Ollama API error 500: model not found''"
    by simp
  with run first_ok fails example_clean show ?thesis by simp
qed

text \<open>
  C4. Let every item of the input list be a string or falsy. Then cleaning raises nothing
  and gives, item by item, the string with every line feed replaced by one space, and
  exactly one space for an empty string or any other falsy item (\<^verbatim>\<open>None\<close>,
  \<^verbatim>\<open>False\<close>, \<^verbatim>\<open>0\<close>, empty bytes, an empty list, a falsy object). When the
  requests before item \<open>j\<close> succeed, the call issues a POST for item \<open>j\<close>, and its
  prompt is that cleaned text, which is never empty. The witness sends
  \<^verbatim>\<open>"hello\nworld"\<close> as \<^verbatim>\<open>"hello world"\<close>, and \<^verbatim>\<open>""\<close> and a falsy item of every
  other kind as \<^verbatim>\<open>" "\<close>.
\<close>

theorem prompt_is_cleaned_item:
  assumes "\<forall>v\<in>set inputs. (\<exists>s. v = PyStr s) \<or> \<not> truthy v"
    and "j < length inputs"
    and "\<forall>m<j. \<not> request_fails
           (respond env m (post_request self (expected_prompt (inputs ! m))))"
  shows "clean_inputs inputs = Inr (map expected_prompt inputs)
         \<and> j < length (posts (drop (length tr) (snd (embed env self inputs tr))))
         \<and> json_payload (posts (drop (length tr) (snd (embed env self inputs tr))) ! j)
             = [(''model'', model self), (''prompt'', expected_prompt (inputs ! j))]
         \<and> expected_prompt (inputs ! j) \<noteq> []
         \<and> (\<forall>s. inputs ! j = PyStr s \<and> s \<noteq> [] \<longrightarrow>
                expected_prompt (inputs ! j) = map newline_to_space s)
         \<and> (\<not> truthy (inputs ! j) \<longrightarrow> expected_prompt (inputs ! j) = '' '')"
proof -
  let ?texts = "map expected_prompt inputs"
  let ?new = "drop (length tr) (snd (embed env self inputs tr))"
  have clean: "clean_inputs inputs = Inr ?texts"
    using assms(1) by (rule clean_inputs_expected)
  obtain n where n: "n \<le> length ?texts"
      "\<forall>m<n. \<not> isl (item_result env self m (?texts ! m))"
      "n < length ?texts \<longrightarrow> isl (item_result env self n (?texts ! n))"
    by (rule leading_ok)
  have "j \<le> n"
  proof (rule ccontr)
    assume "\<not> j \<le> n"
    then have less: "n < j" by simp
    with assms(2) n(3) have "isl (item_result env self n (?texts ! n))" by simp
    moreover from less assms(2,3)
    have "\<not> request_fails (respond env n (post_request self (?texts ! n)))" by simp
    ultimately show False by (simp add: item_fails_iff)
  qed
  have "posts ?new = posts (filter is_http ?new)"
    by (simp add: posts_filter_http)
  also have "\<dots> = map (post_request self) (take (Suc n) ?texts)"
    using embed_http [OF clean n, of tr] by (simp add: posts_exchanges)
  finally have sent: "posts ?new = map (post_request self) (take (Suc n) ?texts)" .
  have there: "j < length (posts ?new)"
    using sent \<open>j \<le> n\<close> assms(2) by simp
  have "posts ?new ! j = post_request self (expected_prompt (inputs ! j))"
    using sent \<open>j \<le> n\<close> assms(2) by simp
  then have payload: "json_payload (posts ?new ! j)
      = [(''model'', model self), (''prompt'', expected_prompt (inputs ! j))]"
    by (simp add: post_request_def)
  have item: "(\<exists>s. inputs ! j = PyStr s) \<or> \<not> truthy (inputs ! j)"
    using assms(1,2) by simp
  then have nonempty: "expected_prompt (inputs ! j) \<noteq> []"
    by (rule expected_prompt_nonempty)
  have str: "\<forall>s. inputs ! j = PyStr s \<and> s \<noteq> [] \<longrightarrow>
      expected_prompt (inputs ! j) = map newline_to_space s"
    by (simp add: expected_prompt_def)
  have falsy: "\<not> truthy (inputs ! j) \<longrightarrow> expected_prompt (inputs ! j) = '' ''"
    by (cases "inputs ! j") (simp_all add: expected_prompt_def)
  from clean there payload nonempty str falsy show ?thesis
    by simp
qed

theorem prompt_is_cleaned_item_witness:
  "clean_inputs example_inputs_falsy =
     Inr [''hello world'', '' '', '' '', '' '', '' '', '' '', '' '', '' '']
   \<and> json_payload (posts (snd (embed example_env_ok example_embedder example_inputs_falsy [])) ! 0)
     = [(''model'', ''nomic-embed-text''), (''prompt'', ''hello world'')]
   \<and> json_payload (posts (snd (embed example_env_ok example_embedder example_inputs_falsy [])) ! 1)
     = [(''model'', ''nomic-embed-text''), (''prompt'', '' '')]
   \<and> json_payload (posts (snd (embed example_env_ok example_embedder example_inputs_falsy [])) ! 2)
     = [(''model'', ''nomic-embed-text''), (''prompt'', '' '')]
   \<and> json_payload (posts (snd (embed example_env_ok example_embedder example_inputs_falsy [])) ! 7)
     = [(''model'', ''nomic-embed-text''), (''prompt'', '' '')]"
proof -
  let ?sent = "posts (drop (length ([] :: real event list))
                 (snd (embed example_env_ok example_embedder example_inputs_falsy [])))"
  have len: "length example_inputs_falsy = 8"
    by (simp add: example_inputs_falsy_def)
  have ok: "\<forall>m<j. \<not> request_fails (respond example_env_ok m
      (post_request example_embedder (expected_prompt (example_inputs_falsy ! m))))" for j
    by (simp add: example_ok_never_fails)
  have model: "model example_embedder = ''nomic-embed-text''"
    by (simp add: example_embedder_def)
  have prompts: "expected_prompt (example_inputs_falsy ! 0) = ''hello world''"
      "expected_prompt (example_inputs_falsy ! 1) = '' ''"
      "expected_prompt (example_inputs_falsy ! 2) = '' ''"
      "expected_prompt (example_inputs_falsy ! 7) = '' ''"
    by (simp_all add: example_inputs_falsy_def expected_prompt_def newline_to_space_def)
  have j0: "0 < length example_inputs_falsy" and j1: "1 < length example_inputs_falsy"
    and j2: "2 < length example_inputs_falsy" and j7: "7 < length example_inputs_falsy"
    using len by simp_all
  from prompt_is_cleaned_item [OF example_falsy_items j0 ok, of "[]"] model prompts(1)
  have first: "clean_inputs example_inputs_falsy = Inr (map expected_prompt example_inputs_falsy)"
    "json_payload (?sent ! 0) = [(''model'', ''nomic-embed-text''), (''prompt'', ''hello world'')]"
    by simp_all
  from prompt_is_cleaned_item [OF example_falsy_items j1 ok, of "[]"] model prompts(2)
  have second: "json_payload (?sent ! 1) = [(''model'', ''nomic-embed-text''), (''prompt'', '' '')]"
    by simp
  from prompt_is_cleaned_item [OF example_falsy_items j2 ok, of "[]"] model prompts(3)
  have third: "json_payload (?sent ! 2) = [(''model'', ''nomic-embed-text''), (''prompt'', '' '')]"
    by simp
  from prompt_is_cleaned_item [OF example_falsy_items j7 ok, of "[]"] model prompts(4)
  have last: "json_payload (?sent ! 7) = [(''model'', ''nomic-embed-text''), (''prompt'', '' '')]"
    by simp
  from first second third last show ?thesis
    by (simp add: example_falsy_prompts)
qed

text \<open>
  C9, as stated, fails: the claim promises one POST for each item of every non-empty input
  list, but the loop ends at the first request that fails. With the three example inputs
  and a service whose second answer is a 500, two requests are posted.
\<close>

theorem posts_stop_short_counterexample:
  "example_inputs \<noteq> []
   \<and> length example_inputs = 3
   \<and> length (posts (snd (embed example_env_500 example_embedder example_inputs []))) = 2"
  by (simp add: embed_def example_clean example_texts_def Let_def read_embedding_def
      example_env_500_def example_service_500_def example_service_ok_def example_embedder_def
      example_nonempty)

text \<open>
  C9, amended. Let the inputs clean to \<open>texts\<close> and let the first \<open>n\<close> requests succeed,
  the next one, if there is one, failing. Then the HTTP events of the call are the
  exchanges for the first \<open>n + 1\<close> texts (all of them when \<open>n\<close> is the number of inputs):
  one POST for each of these items, in input order, each followed by its answer before the
  next POST, and none after the failing one. When every request succeeds there is exactly
  one POST for each input item. Each POST goes to the endpoint of the embedder with the
  body \<^verbatim>\<open>{"model": <model>, "prompt": <cleaned text>}\<close> and a total timeout of 30
  seconds.
\<close>

theorem posts_in_order_until_failure:
  assumes "clean_inputs inputs = Inr texts"
    and "n \<le> length inputs"
    and "\<forall>j<n. \<not> request_fails (respond env j (post_request self (texts ! j)))"
    and "n < length inputs \<longrightarrow> request_fails (respond env n (post_request self (texts ! n)))"
  shows "filter is_http (drop (length tr) (snd (embed env self inputs tr)))
           = exchanges env self 0 (take (Suc n) texts)
         \<and> posts (drop (length tr) (snd (embed env self inputs tr)))
           = map (post_request self) (take (Suc n) texts)
         \<and> (n = length inputs \<longrightarrow>
              posts (drop (length tr) (snd (embed env self inputs tr)))
                = map (post_request self) texts
              \<and> length (posts (drop (length tr) (snd (embed env self inputs tr))))
                = length inputs)
         \<and> (\<forall>text. post_request self text =
               \<lparr>url = endpoint self,
                json_payload = [(''model'', model self), (''prompt'', text)],
                timeout_total = 30\<rparr>)"
proof -
  have len: "length texts = length inputs"
    using assms(1) by (rule clean_inputs_length)
  let ?new = "drop (length tr) (snd (embed env self inputs tr))"
  have n: "n \<le> length texts"
      "\<forall>j<n. \<not> isl (item_result env self j (texts ! j))"
      "n < length texts \<longrightarrow> isl (item_result env self n (texts ! n))"
    using assms(2,3,4) len by (simp_all add: item_fails_iff)
  have http: "filter is_http ?new = exchanges env self 0 (take (Suc n) texts)"
    using assms(1) n by (rule embed_http)
  have "posts ?new = posts (filter is_http ?new)"
    by (simp add: posts_filter_http)
  then have sent: "posts ?new = map (post_request self) (take (Suc n) texts)"
    using http by (simp add: posts_exchanges)
  have all: "n = length inputs \<longrightarrow>
      posts ?new = map (post_request self) texts \<and> length (posts ?new) = length inputs"
    using sent len by simp
  show ?thesis
    using http sent all len by (simp add: post_request_def)
qed

theorem posts_in_order_until_failure_witness:
  "clean_inputs example_inputs = Inr example_texts
   \<and> posts (snd (embed example_env_ok example_embedder example_inputs [])) =
       [post_request example_embedder ''cat'', post_request example_embedder '' '',
        post_request example_embedder ''dog food'']
   \<and> post_request example_embedder ''cat'' =
       \<lparr>url = ''http://ollama:11434/api/embeddings'',
        json_payload = [(''model'', ''nomic-embed-text''), (''prompt'', ''cat'')],
        timeout_total = 30\<rparr>"
proof -
  have n: "3 \<le> length example_inputs"
    by (simp add: example_nonempty)
  have ok: "\<forall>j<3. \<not> request_fails (respond example_env_ok j
               (post_request example_embedder (example_texts ! j)))"
    by (simp add: example_ok_never_fails)
  have last: "3 < length example_inputs \<longrightarrow> request_fails (respond example_env_ok 3
               (post_request example_embedder (example_texts ! 3)))"
    by (simp add: example_nonempty)
  from posts_in_order_until_failure [OF example_clean n ok last, of "[]"]
  have "posts (snd (embed example_env_ok example_embedder example_inputs [])) =
          map (post_request example_embedder) (take (Suc 3) example_texts)"
    and "post_request example_embedder ''cat'' =
          \<lparr>url = endpoint example_embedder,
           json_payload = [(''model'', model example_embedder), (''prompt'', ''cat'')],
           timeout_total = 30\<rparr>"
    by simp_all
  then show ?thesis
    using example_clean by (simp add: example_texts_def example_embedder_def)
qed




text \<open>
  C6. For an embedder that the constructor built from a configuration: when the
  configuration has no metrics factory, no call of the embed operation makes any metrics
  call. When it has one, every call that succeeds on a non-empty input list reads the
  clock twice, at the start and at the end, and makes exactly two metrics calls: one
  increment of the request counter by the number of input items and one observation of
  the end reading minus the start reading on the latency summary, both with the labels
  of the configuration (none when the configuration gives none).
\<close>

theorem metrics_once_per_successful_call:
  assumes "fst (init cfg tr0) = Inr self"
  shows "(cfg_metrics_factory cfg = None \<longrightarrow>
            filter is_metrics_call (drop (length tr) (snd (embed env self inputs tr))) = [])
         \<and> (cfg_metrics_factory cfg \<noteq> None \<and> inputs \<noteq> []
              \<and> fst (embed env self inputs tr) = Inr out \<longrightarrow>
            (\<exists>start_time end_time.
               clock_readings (drop (length tr) (snd (embed env self inputs tr)))
                 = [start_time, end_time]
               \<and> filter is_metrics_call (drop (length tr) (snd (embed env self inputs tr)))
                 = [Increment ''embedder_ollama_usage_requests'' (length inputs)
                      (case cfg_user_metrics_labels cfg of None \<Rightarrow> [] | Some l \<Rightarrow> l),
                    Observe ''embedder_ollama_latency_seconds'' (end_time - start_time)
                      (case cfg_user_metrics_labels cfg of None \<Rightarrow> [] | Some l \<Rightarrow> l)]))"
proof (intro conjI impI)
  assume "cfg_metrics_factory cfg = None"
  then have "\<not> collect_metrics self"
    using init_Inr(4) [OF assms] by simp
  then show "filter is_metrics_call (drop (length tr) (snd (embed env self inputs tr))) = []"
    by (rule embed_no_metrics)
next
  let ?labels = "case cfg_user_metrics_labels cfg of None \<Rightarrow> [] | Some l \<Rightarrow> l"
  let ?new = "drop (length tr) (snd (embed env self inputs tr))"
  assume run: "cfg_metrics_factory cfg \<noteq> None \<and> inputs \<noteq> []
                 \<and> fst (embed env self inputs tr) = Inr out"
  then have on: "collect_metrics self"
    using init_Inr(4) [OF assms] by simp
  from run obtain texts where texts: "clean_inputs inputs = Inr texts"
      "\<forall>j<length texts. \<not> isl (item_result env self j (texts ! j))"
    using embed_Inr_all_ok [of env self inputs tr out] by blast
  define t0 where "t0 = monotonic env tr"
  define t1 where "t1 = monotonic env (tr @ Monotonic t0 # exchanges env self 0 texts)"
  have attrs: "collect_metrics self \<Longrightarrow>
      request_counter self = Some ''embedder_ollama_usage_requests''
      \<and> user_metrics_labels self = Some ?labels
      \<and> latency_summary self = Some ''embedder_ollama_latency_seconds''"
    using init_Inr(5) [OF assms] by simp
  have nonempty: "inputs \<noteq> []"
    using run by simp
  have new: "?new = Monotonic t0 # exchanges env self 0 texts @ Monotonic t1
      # [Increment ''embedder_ollama_usage_requests'' (length inputs) ?labels,
         Observe ''embedder_ollama_latency_seconds'' (t1 - t0) ?labels]"
    using embed_all_ok [OF nonempty texts attrs t0_def t1_def] on by simp
  have clock: "clock_readings ?new = [t0, t1]"
    unfolding new by (simp add: clock_readings_append clock_readings_exchanges)
  have calls: "filter is_metrics_call ?new =
      [Increment ''embedder_ollama_usage_requests'' (length inputs) ?labels,
       Observe ''embedder_ollama_latency_seconds'' (t1 - t0) ?labels]"
    unfolding new by (simp add: metrics_exchanges)
  from clock calls
  show "\<exists>start_time end_time.
          clock_readings ?new = [start_time, end_time]
          \<and> filter is_metrics_call ?new
            = [Increment ''embedder_ollama_usage_requests'' (length inputs) ?labels,
               Observe ''embedder_ollama_latency_seconds'' (end_time - start_time) ?labels]"
    by blast
qed

theorem metrics_once_per_successful_call_witness:
  "cfg_metrics_factory example_config_metrics \<noteq> None
   \<and> example_inputs \<noteq> []
   \<and> fst (embed example_env_ok example_embedder_metrics example_inputs []) =
       Inr [example_vector 0, example_vector 1, example_vector 2]
   \<and> filter is_metrics_call (snd (embed example_env_ok example_embedder_metrics example_inputs []))
       = [Increment ''embedder_ollama_usage_requests'' 3 [(''tenant'', ''demo'')],
          Observe ''embedder_ollama_latency_seconds'' (7 / 4) [(''tenant'', ''demo'')]]
   \<and> cfg_metrics_factory example_config = None
   \<and> filter is_metrics_call (snd (embed example_env_ok example_embedder example_inputs [])) = []"
proof -
  let ?new = "snd (embed example_env_ok example_embedder_metrics example_inputs [])"
  have on: "cfg_metrics_factory example_config_metrics \<noteq> None"
    by (simp add: example_config_metrics_def)
  have off: "cfg_metrics_factory example_config = None"
    by (simp add: example_config_def)
  have run: "fst (embed example_env_ok example_embedder_metrics example_inputs []) =
       Inr [example_vector 0, example_vector 1, example_vector 2]"
    by (simp add: example_run_metrics)
  from metrics_once_per_successful_call [OF example_init_metrics,
      of "[]" example_env_ok example_inputs "[example_vector 0, example_vector 1, example_vector 2]"]
    on run example_nonempty(1)
  obtain start_time end_time where
    clock: "clock_readings ?new = [start_time, end_time]" and
    calls: "filter is_metrics_call ?new =
        [Increment ''embedder_ollama_usage_requests'' (length example_inputs)
           (case cfg_user_metrics_labels example_config_metrics of None \<Rightarrow> [] | Some l \<Rightarrow> l),
         Observe ''embedder_ollama_latency_seconds'' (end_time - start_time)
           (case cfg_user_metrics_labels example_config_metrics of None \<Rightarrow> [] | Some l \<Rightarrow> l)]"
    by auto
  from clock have "start_time = 0" "end_time = 7 / 4"
    by (simp_all add: example_run_metrics)
  with calls have enabled: "filter is_metrics_call ?new =
       [Increment ''embedder_ollama_usage_requests'' 3 [(''tenant'', ''demo'')],
        Observe ''embedder_ollama_latency_seconds'' (7 / 4) [(''tenant'', ''demo'')]]"
    by (simp add: example_nonempty example_config_metrics_def)
  from metrics_once_per_successful_call [OF example_init,
      of "[]" example_env_ok example_inputs "[]"] off
  have disabled: "filter is_metrics_call
      (snd (embed example_env_ok example_embedder example_inputs [])) = []"
    by simp
  from on off run enabled disabled example_nonempty(1) show ?thesis
    by simp
qed

end
